theory Spec2Isabelle
  imports Main
begin

section \<open>Proxy sequences of vot/dataset/proxy.py\<close>

text \<open>
  The module defines three views over a sequence (\<open>ProxySequence\<close>,
  \<open>FrameMapSequence\<close>, \<open>ChannelFilterSequence\<close>) and one view over a channel
  (\<open>FrameMapChannel\<close>). Python raises are values of \<open>error + 'a\<close> (\<open>Inl\<close> the
  error), Python integers are \<open>int\<close>, Python lists are lists.
\<close>

subsection \<open>Errors and Python values\<close>

text \<open>
  \<open>IndexError\<close>: a list subscript out of range. \<open>AttributeError\<close>: reading an
  instance attribute that no initialiser assigned. \<open>SourceError\<close>: whatever the
  wrapped concrete sequence or channel raises by itself.
\<close>

datatype error = IndexError | AttributeError | SourceError string

text \<open>
  What \<open>groundtruth\<close>, \<open>tags\<close> and \<open>values\<close> hand back: an opaque item of the
  source, Python's \<open>None\<close>, or a Python list of such values.
\<close>

datatype 'a pyval = Val 'a | PyNone | PyList "'a pyval list"

text \<open>
  \<open>xs[i]\<close> of a Python list: indices \<open>0 .. len-1\<close> count from the front,
  indices \<open>-len .. -1\<close> count from the back, everything else raises IndexError.
\<close>

definition py_index :: "'x list \<Rightarrow> int \<Rightarrow> error + 'x" where
  "py_index xs i =
     (if 0 \<le> i \<and> i < int (length xs) then Inr (xs ! nat i)
      else if - int (length xs) \<le> i \<and> i < 0 then Inr (xs ! nat (i + int (length xs)))
      else Inl IndexError)"

text \<open>\<open>xs[i] = v\<close> for the non-negative \<open>i\<close> that \<open>enumerate\<close> produces.\<close>

definition py_setitem :: "'x list \<Rightarrow> nat \<Rightarrow> 'x \<Rightarrow> error + 'x list" where
  "py_setitem xs i v = (if i < length xs then Inr (xs[i := v]) else Inl IndexError)"

subsection \<open>Channels\<close>

text \<open>
  A concrete channel is outside the module: it is taken as a parameter, a record of
  its accessors (\<open>length\<close>, \<open>frame\<close>, \<open>filename\<close>, \<open>size\<close>).
\<close>

record 'b channel_source =
  c_length :: int
  c_frame :: "int \<Rightarrow> error + 'b"
  c_filename :: "int \<Rightarrow> error + string"
  c_size :: "int \<times> int"

text \<open>
  \<open>FrameMapChannel\<close> holds the attributes its initialiser assigns: \<open>_source\<close> and
  \<open>_map\<close> (the list is stored as given, it is not filtered here).
\<close>

datatype 'b channel_object =
    SourceChannel "'b channel_source"
  | FrameMapChannel "'b channel_object" "int list"

fun channel_length :: "'b channel_object \<Rightarrow> int" where
  "channel_length (SourceChannel c) = c_length c"
| "channel_length (FrameMapChannel source frame_map) = int (length frame_map)"

fun channel_frame :: "'b channel_object \<Rightarrow> int \<Rightarrow> error + 'b" where
  "channel_frame (SourceChannel c) index = c_frame c index"
| "channel_frame (FrameMapChannel source frame_map) index =
     (case py_index frame_map index of
        Inl e \<Rightarrow> Inl e
      | Inr k \<Rightarrow> channel_frame source k)"

fun channel_filename :: "'b channel_object \<Rightarrow> int \<Rightarrow> error + string" where
  "channel_filename (SourceChannel c) index = c_filename c index"
| "channel_filename (FrameMapChannel source frame_map) index =
     (case py_index frame_map index of
        Inl e \<Rightarrow> Inl e
      | Inr k \<Rightarrow> channel_filename source k)"

fun channel_size :: "'b channel_object \<Rightarrow> int \<times> int" where
  "channel_size (SourceChannel c) = c_size c"
| "channel_size (FrameMapChannel source frame_map) = channel_size source"

subsection \<open>Sequences\<close>

text \<open>
  A concrete sequence is outside the module as well and is a parameter: a record of
  what the views ask of it. \<open>s_len\<close> is its \<open>__len__\<close>, \<open>s_length\<close> its
  \<open>length\<close> property; \<open>ProxySequence.length\<close> reads the former,
  \<open>FrameMapSequence.__init__\<close> the latter. \<open>s_frame\<close> tells, for an index,
  whether the concrete \<open>frame\<close> raises or which index its handle carries.
\<close>

record ('a, 'b) sequence_source =
  s_len :: int
  s_length :: int
  s_frame :: "int \<Rightarrow> error + int"
  s_metadata :: "string \<Rightarrow> 'a pyval \<Rightarrow> error + 'a pyval"
  s_groundtruth :: "int option \<Rightarrow> error + 'a pyval"
  s_tags :: "int option \<Rightarrow> error + 'a pyval"
  s_values :: "int option \<Rightarrow> error + 'a pyval"
  s_channel :: "string option \<Rightarrow> error + 'b channel_object option"
  s_channels :: "error + string list"
  s_size :: "int \<times> int"

text \<open>
  Each view carries the attributes its initialiser assigns in the module:
  \<open>_source\<close> for all three, \<open>_map\<close> for \<open>FrameMapSequence\<close>, \<open>_filter\<close> for
  \<open>ChannelFilterSequence\<close>. The base initialiser, which is outside the module,
  is handed the name and the dataset of the source and nothing else.
\<close>

datatype ('a, 'b) sequence =
    Source "('a, 'b) sequence_source"
  | ProxySequence "('a, 'b) sequence"
  | FrameMapSequence "('a, 'b) sequence" "int list"
  | ChannelFilterSequence "('a, 'b) sequence" "string list"

text \<open>
  \<open>Frame(sequence, index)\<close>: the handle is the pair of its owner and an index.
\<close>

datatype ('a, 'b) frame_handle = Frame "('a, 'b) sequence" int

fun frame_sequence :: "('a, 'b) frame_handle \<Rightarrow> ('a, 'b) sequence" where
  "frame_sequence (Frame s i) = s"

fun frame_index :: "('a, 'b) frame_handle \<Rightarrow> int" where
  "frame_index (Frame s i) = i"

text \<open>
  Reading \<open>self._map\<close> and \<open>self._channels\<close>. Only \<open>FrameMapSequence.__init__\<close>
  assigns \<open>_map\<close>; \<open>ChannelFilterSequence\<close> derives from \<open>ProxySequence\<close>, not
  from \<open>FrameMapSequence\<close>, so it has none. No initialiser of the module assigns
  \<open>_channels\<close>.
\<close>

fun attr_map :: "('a, 'b) sequence \<Rightarrow> error + int list" where
  "attr_map (FrameMapSequence source frame_map) = Inr frame_map"
| "attr_map (Source s) = Inl AttributeError"
| "attr_map (ProxySequence source) = Inl AttributeError"
| "attr_map (ChannelFilterSequence source flt) = Inl AttributeError"

fun attr_channels :: "('a, 'b) sequence \<Rightarrow> error + string list" where
  "attr_channels (Source s) = Inl AttributeError"
| "attr_channels (ProxySequence source) = Inl AttributeError"
| "attr_channels (FrameMapSequence source frame_map) = Inl AttributeError"
| "attr_channels (ChannelFilterSequence source flt) = Inl AttributeError"

text \<open>
  The \<open>length\<close> property and \<open>__len__\<close>. \<open>ProxySequence.length\<close> is
  \<open>len(self._source)\<close>, \<open>FrameMapSequence.length\<close> is \<open>len(self._map)\<close>, and
  \<open>__len__\<close> of every view is \<open>self.length\<close>; \<open>ChannelFilterSequence\<close>
  inherits both from \<open>ProxySequence\<close>.
\<close>

fun length_seq :: "('a, 'b) sequence \<Rightarrow> int"
  and len_seq :: "('a, 'b) sequence \<Rightarrow> int" where
  "length_seq (Source s) = s_length s"
| "length_seq (ProxySequence source) = len_seq source"
| "length_seq (FrameMapSequence source frame_map) = int (length frame_map)"
| "length_seq (ChannelFilterSequence source flt) = len_seq source"
| "len_seq (Source s) = s_len s"
| "len_seq (ProxySequence source) = length_seq (ProxySequence source)"
| "len_seq (FrameMapSequence source frame_map) = length_seq (FrameMapSequence source frame_map)"
| "len_seq (ChannelFilterSequence source flt) = length_seq (ChannelFilterSequence source flt)"

subsection \<open>Construction\<close>

text \<open>
  \<open>FrameMapSequence.__init__\<close>: \<open>_map\<close> is the comprehension
  \<open>[i for i in frame_map if i >= 0 and i < source.length]\<close>.
\<close>

definition FrameMapSequence_init :: "('a, 'b) sequence \<Rightarrow> int list \<Rightarrow> ('a, 'b) sequence" where
  "FrameMapSequence_init source frame_map =
     FrameMapSequence source (filter (\<lambda>i. i \<ge> 0 \<and> i < length_seq source) frame_map)"

text \<open>\<open>ProxySequence.__init__\<close> stores the source.\<close>

definition ProxySequence_init :: "('a, 'b) sequence \<Rightarrow> ('a, 'b) sequence" where
  "ProxySequence_init source = ProxySequence source"

subsection \<open>Frames\<close>

text \<open>
  \<open>ProxySequence.frame\<close> is \<open>Frame(self, index)\<close>;
  \<open>FrameMapSequence.frame\<close> is \<open>Frame(self, self._map[index])\<close>.
\<close>

definition ProxySequence_frame :: "('a, 'b) sequence \<Rightarrow> int \<Rightarrow> error + ('a, 'b) frame_handle" where
  "ProxySequence_frame self index = Inr (Frame self index)"

definition FrameMapSequence_frame :: "('a, 'b) sequence \<Rightarrow> int \<Rightarrow> error + ('a, 'b) frame_handle" where
  "FrameMapSequence_frame self index =
     (case attr_map self of
        Inl e \<Rightarrow> Inl e
      | Inr m \<Rightarrow> (case py_index m index of
                   Inl e \<Rightarrow> Inl e
                 | Inr k \<Rightarrow> Inr (Frame self k)))"

text \<open>
  Method lookup for \<open>frame\<close>: \<open>ChannelFilterSequence\<close> does not override it and
  gets the one of \<open>ProxySequence\<close>. No view forwards \<open>frame\<close> to its source;
  the concrete sequence answers for itself through \<open>s_frame\<close>.
\<close>

fun frame :: "('a, 'b) sequence \<Rightarrow> int \<Rightarrow> error + ('a, 'b) frame_handle" where
  "frame (Source s) index =
     (case s_frame s index of
        Inl e \<Rightarrow> Inl e
      | Inr k \<Rightarrow> Inr (Frame (Source s) k))"
| "frame (ProxySequence source) index = ProxySequence_frame (ProxySequence source) index"
| "frame (FrameMapSequence source frame_map) index =
     FrameMapSequence_frame (FrameMapSequence source frame_map) index"
| "frame (ChannelFilterSequence source flt) index =
     ProxySequence_frame (ChannelFilterSequence source flt) index"

subsection \<open>Channels of a sequence\<close>

text \<open>
  \<open>channel(channel=None)\<close>; the omitted name is \<open>None\<close>. \<open>ProxySequence\<close>
  forwards. \<open>FrameMapSequence\<close> wraps what the source returns in a
  \<open>FrameMapChannel\<close> over \<open>self._map\<close>. \<open>ChannelFilterSequence\<close> returns
  \<open>None\<close> for a name outside \<open>self._filter\<close>, and otherwise does as
  \<open>FrameMapSequence\<close> does, reading \<open>self._map\<close>.
\<close>

fun channel :: "('a, 'b) sequence \<Rightarrow> string option \<Rightarrow> error + 'b channel_object option" where
  "channel (Source s) name = s_channel s name"
| "channel (ProxySequence source) name = channel source name"
| "channel (FrameMapSequence source frame_map) name =
     (case channel source name of
        Inl e \<Rightarrow> Inl e
      | Inr None \<Rightarrow> Inr None
      | Inr (Some sourcechannel) \<Rightarrow>
          (case attr_map (FrameMapSequence source frame_map) of
             Inl e \<Rightarrow> Inl e
           | Inr m \<Rightarrow> Inr (Some (FrameMapChannel sourcechannel m))))"
| "channel (ChannelFilterSequence source flt) name =
     (if name \<notin> Some ` set flt then Inr None
      else (case channel source name of
              Inl e \<Rightarrow> Inl e
            | Inr None \<Rightarrow> Inr None
            | Inr (Some sourcechannel) \<Rightarrow>
                (case attr_map (ChannelFilterSequence source flt) of
                   Inl e \<Rightarrow> Inl e
                 | Inr m \<Rightarrow> Inr (Some (FrameMapChannel sourcechannel m)))))"

text \<open>
  \<open>channels()\<close>: forwarded by \<open>ProxySequence\<close> and \<open>FrameMapSequence\<close>;
  \<open>ChannelFilterSequence.channels\<close> is \<open>list(self._channels)\<close>.
\<close>

fun channels :: "('a, 'b) sequence \<Rightarrow> error + string list" where
  "channels (Source s) = s_channels s"
| "channels (ProxySequence source) = channels source"
| "channels (FrameMapSequence source frame_map) = channels source"
| "channels (ChannelFilterSequence source flt) =
     (case attr_channels (ChannelFilterSequence source flt) of
        Inl e \<Rightarrow> Inl e
      | Inr cs \<Rightarrow> Inr cs)"

text \<open>
  \<open>ChannelFilterSequence.__init__\<close>: \<open>_filter\<close> is the comprehension
  \<open>[i for i in channels if i in source.channels()]\<close>. The requested names come
  in the order the iteration yields them; \<open>source.channels()\<close> is called once
  for each of them, and a raise there ends the construction.
\<close>

fun filter_channels :: "(error + string list) \<Rightarrow> string list \<Rightarrow> error + string list" where
  "filter_channels available [] = Inr []"
| "filter_channels available (i # rest) =
     (case available of
        Inl e \<Rightarrow> Inl e
      | Inr names \<Rightarrow>
          (case filter_channels available rest of
             Inl e \<Rightarrow> Inl e
           | Inr kept \<Rightarrow> Inr (if i \<in> set names then i # kept else kept)))"

definition ChannelFilterSequence_init ::
  "('a, 'b) sequence \<Rightarrow> string list \<Rightarrow> error + ('a, 'b) sequence" where
  "ChannelFilterSequence_init source requested =
     (case filter_channels (channels source) requested of
        Inl e \<Rightarrow> Inl e
      | Inr flt \<Rightarrow> Inr (ChannelFilterSequence source flt))"

subsection \<open>Ground truth, tags and values\<close>

text \<open>
  The loop of \<open>FrameMapSequence.groundtruth\<close>,
  \<open>for i, m in enumerate(self._map): groundtruth[i] = self._source.groundtruth(m)\<close>,
  over the list built by \<open>[None] * len(self)\<close>. The argument \<open>g\<close> is the bound
  method \<open>self._source.groundtruth\<close>.
\<close>

fun groundtruth_loop ::
  "(int \<Rightarrow> error + 'a pyval) \<Rightarrow> (nat \<times> int) list \<Rightarrow> 'a pyval list \<Rightarrow> error + 'a pyval list" where
  "groundtruth_loop g [] acc = Inr acc"
| "groundtruth_loop g ((i, m) # rest) acc =
     (case g m of
        Inl e \<Rightarrow> Inl e
      | Inr v \<Rightarrow> (case py_setitem acc i v of
                   Inl e \<Rightarrow> Inl e
                 | Inr acc' \<Rightarrow> groundtruth_loop g rest acc'))"

fun groundtruth :: "('a, 'b) sequence \<Rightarrow> int option \<Rightarrow> error + 'a pyval" where
  "groundtruth (Source s) index = s_groundtruth s index"
| "groundtruth (ProxySequence source) index = groundtruth source index"
| "groundtruth (FrameMapSequence source frame_map) index =
     (case index of
        None \<Rightarrow>
          (case groundtruth_loop (\<lambda>m. groundtruth source (Some m)) (enumerate 0 frame_map)
                  (replicate (nat (len_seq (FrameMapSequence source frame_map))) PyNone) of
             Inl e \<Rightarrow> Inl e
           | Inr acc \<Rightarrow> Inr (PyList acc))
      | Some i \<Rightarrow>
          (case py_index frame_map i of
             Inl e \<Rightarrow> Inl e
           | Inr k \<Rightarrow> groundtruth source (Some k)))"
| "groundtruth (ChannelFilterSequence source flt) index = groundtruth source index"

fun tags :: "('a, 'b) sequence \<Rightarrow> int option \<Rightarrow> error + 'a pyval" where
  "tags (Source s) index = s_tags s index"
| "tags (ProxySequence source) index = tags source index"
| "tags (FrameMapSequence source frame_map) index =
     (case index of
        None \<Rightarrow> tags source None
      | Some i \<Rightarrow>
          (case py_index frame_map i of
             Inl e \<Rightarrow> Inl e
           | Inr k \<Rightarrow> tags source (Some k)))"
| "tags (ChannelFilterSequence source flt) index = tags source index"

fun values_seq :: "('a, 'b) sequence \<Rightarrow> int option \<Rightarrow> error + 'a pyval" where
  "values_seq (Source s) index = s_values s index"
| "values_seq (ProxySequence source) index = values_seq source index"
| "values_seq (FrameMapSequence source frame_map) index =
     (case index of
        None \<Rightarrow> values_seq source None
      | Some i \<Rightarrow>
          (case py_index frame_map i of
             Inl e \<Rightarrow> Inl e
           | Inr k \<Rightarrow> values_seq source (Some k)))"
| "values_seq (ChannelFilterSequence source flt) index = values_seq source index"

text \<open>
  \<open>metadata\<close> and \<open>size\<close> are forwarded by \<open>ProxySequence\<close> and overridden
  by no view.
\<close>

fun metadata :: "('a, 'b) sequence \<Rightarrow> string \<Rightarrow> 'a pyval \<Rightarrow> error + 'a pyval" where
  "metadata (Source s) name dflt = s_metadata s name dflt"
| "metadata (ProxySequence source) name dflt = metadata source name dflt"
| "metadata (FrameMapSequence source frame_map) name dflt = metadata source name dflt"
| "metadata (ChannelFilterSequence source flt) name dflt = metadata source name dflt"

fun size_seq :: "('a, 'b) sequence \<Rightarrow> int \<times> int" where
  "size_seq (Source s) = s_size s"
| "size_seq (ProxySequence source) = size_seq source"
| "size_seq (FrameMapSequence source frame_map) = size_seq source"
| "size_seq (ChannelFilterSequence source flt) = size_seq source"

subsection \<open>Views that answer indexed requests through a frame map\<close>

text \<open>
  A \<open>FrameMapSequence\<close>, or forwarding views stacked on one: the indexed
  \<open>groundtruth\<close>, \<open>tags\<close>, \<open>values\<close> and the channels of such a view are
  answered by that \<open>FrameMapSequence\<close>.
\<close>

fun over_frame_map :: "('a, 'b) sequence \<Rightarrow> bool" where
  "over_frame_map (Source s) = False"
| "over_frame_map (ProxySequence source) = over_frame_map source"
| "over_frame_map (FrameMapSequence source frame_map) = True"
| "over_frame_map (ChannelFilterSequence source flt) = over_frame_map source"

subsection \<open>The list the specification gives for the whole ground truth\<close>

text \<open>
  The comprehension \<open>[S.groundtruth(m[i]) for i in range(len(m))]\<close> of the
  specification, evaluated from left to right; the first raise of the source ends it.
\<close>

fun spec_groundtruth_list :: "(int \<Rightarrow> error + 'a pyval) \<Rightarrow> int list \<Rightarrow> error + 'a pyval list" where
  "spec_groundtruth_list g [] = Inr []"
| "spec_groundtruth_list g (m # ms) =
     (case g m of
        Inl e \<Rightarrow> Inl e
      | Inr v \<Rightarrow> (case spec_groundtruth_list g ms of
                   Inl e \<Rightarrow> Inl e
                 | Inr vs \<Rightarrow> Inr (v # vs)))"

subsection \<open>A concrete source\<close>

text \<open>
  The sequence of the end-to-end scenario: five frames, ground truth
  \<open>r0 .. r4\<close>, the channels \<open>color\<close> and \<open>depth\<close>.
\<close>

definition color_channel :: "string channel_object" where
  "color_channel = SourceChannel
     \<lparr> c_length = 5,
       c_frame = (\<lambda>i. if 0 \<le> i \<and> i < 5
                       then Inr ([''c0'', ''c1'', ''c2'', ''c3'', ''c4''] ! nat i)
                       else Inl (SourceError ''frame'')),
       c_filename = (\<lambda>i. if 0 \<le> i \<and> i < 5
                          then Inr ([''0.jpg'', ''1.jpg'', ''2.jpg'', ''3.jpg'', ''4.jpg''] ! nat i)
                          else Inl (SourceError ''filename'')),
       c_size = (640, 480) \<rparr>"

definition depth_channel :: "string channel_object" where
  "depth_channel = SourceChannel
     \<lparr> c_length = 5,
       c_frame = (\<lambda>i. if 0 \<le> i \<and> i < 5
                       then Inr ([''d0'', ''d1'', ''d2'', ''d3'', ''d4''] ! nat i)
                       else Inl (SourceError ''frame'')),
       c_filename = (\<lambda>i. if 0 \<le> i \<and> i < 5
                          then Inr ([''0.png'', ''1.png'', ''2.png'', ''3.png'', ''4.png''] ! nat i)
                          else Inl (SourceError ''filename'')),
       c_size = (640, 480) \<rparr>"

definition per_frame :: "string list \<Rightarrow> int option \<Rightarrow> error + string pyval" where
  "per_frame xs index =
     (case index of
        None \<Rightarrow> Inr (PyList (map Val xs))
      | Some i \<Rightarrow> (if 0 \<le> i \<and> i < int (length xs) then Inr (Val (xs ! nat i))
                    else Inl (SourceError ''index'')))"

definition five_frames :: "(string, string) sequence" where
  "five_frames = Source
     \<lparr> s_len = 5,
       s_length = 5,
       s_frame = (\<lambda>i. if 0 \<le> i \<and> i < 5 then Inr i else Inl IndexError),
       s_metadata = (\<lambda>name dflt. Inr dflt),
       s_groundtruth = per_frame [''r0'', ''r1'', ''r2'', ''r3'', ''r4''],
       s_tags = per_frame [''t0'', ''t1'', ''t2'', ''t3'', ''t4''],
       s_values = per_frame [''v0'', ''v1'', ''v2'', ''v3'', ''v4''],
       s_channel = (\<lambda>name. Inr (if name = Some ''color'' \<or> name = None then Some color_channel
                                else if name = Some ''depth'' then Some depth_channel
                                else None)),
       s_channels = Inr [''color'', ''depth''],
       s_size = (640, 480) \<rparr>"

section \<open>Auxiliary facts\<close>

lemma py_index_in_range:
  "0 \<le> i \<Longrightarrow> i < int (length xs) \<Longrightarrow> py_index xs i = Inr (xs ! nat i)"
  by (simp add: py_index_def)

lemma py_index_out_of_range:
  "int (length xs) \<le> i \<or> i < - int (length xs) \<Longrightarrow> py_index xs i = Inl IndexError"
  by (auto simp add: py_index_def)

text \<open>
  The loop fills the positions \<open>n, n + 1, ...\<close> of the accumulator one after the
  other and never writes outside it, as long as the accumulator is long enough.
\<close>

lemma groundtruth_loop_enumerate:
  "length acc = n + length ms \<Longrightarrow>
   groundtruth_loop g (enumerate n ms) acc =
     (case spec_groundtruth_list g ms of
        Inl e \<Rightarrow> Inl e
      | Inr vs \<Rightarrow> Inr (take n acc @ vs))"
proof (induction ms arbitrary: n acc)
  case Nil
  then show ?case by simp
next
  case (Cons m ms)
  show ?case
  proof (cases "g m")
    case (Inl e)
    then show ?thesis by simp
  next
    case (Inr v)
    from Cons.prems have n: "n < length acc" by simp
    from Cons.prems have len: "length (acc[n := v]) = Suc n + length ms" by simp
    have tk: "take (Suc n) (acc[n := v]) = take n acc @ [v]"
      using n by (simp add: take_Suc_conv_app_nth)
    show ?thesis
      using Inr n Cons.IH [OF len] tk
      by (simp add: py_setitem_def split: sum.splits)
  qed
qed

lemma groundtruth_whole:
  "groundtruth (FrameMapSequence source m) None =
     (case spec_groundtruth_list (\<lambda>k. groundtruth source (Some k)) m of
        Inl e \<Rightarrow> Inl e
      | Inr vs \<Rightarrow> Inr (PyList vs))"
  using groundtruth_loop_enumerate
    [of "replicate (length m) PyNone" 0 m "\<lambda>k. groundtruth source (Some k)"]
  by (simp split: sum.splits)

lemma spec_groundtruth_list_map:
  "\<forall>k \<in> set ms. g k = Inr (h k) \<Longrightarrow> spec_groundtruth_list g ms = Inr (map h ms)"
  by (induction ms) simp_all

lemma spec_groundtruth_list_length:
  "spec_groundtruth_list g ms = Inr vs \<Longrightarrow> length vs = length ms"
  by (induction ms arbitrary: vs) (auto split: sum.splits)

text \<open>The comprehension of \<open>ChannelFilterSequence.__init__\<close> is a filter.\<close>

lemma filter_channels_available:
  "filter_channels (Inr names) requested = Inr [i \<leftarrow> requested. i \<in> set names]"
  by (induction requested) simp_all

lemma filter_channels_set:
  "filter_channels (Inr names) requested = Inr flt \<Longrightarrow> set flt = set requested \<inter> set names"
  by (auto simp add: filter_channels_available)

text \<open>
  What the two accessors of \<open>ChannelFilterSequence\<close> do on every instance: a
  channel that is allowed and present ends in the missing \<open>_map\<close>, and
  \<open>channels()\<close> ends in the missing \<open>_channels\<close>.
\<close>

lemma ChannelFilterSequence_channel_allowed:
  "name \<in> Some ` set flt \<Longrightarrow> channel source name = Inr (Some c) \<Longrightarrow>
   channel (ChannelFilterSequence source flt) name = Inl AttributeError"
  by simp

lemma ChannelFilterSequence_channels:
  "channels (ChannelFilterSequence source flt) = Inl AttributeError"
  by simp

lemma over_frame_map_len:
  "over_frame_map v \<Longrightarrow> len_seq v = length_seq v"
  by (cases v) simp_all

lemma over_frame_map_indexed:
  "over_frame_map v \<Longrightarrow> length_seq v \<le> i \<or> i < - length_seq v \<Longrightarrow>
   groundtruth v (Some i) = Inl IndexError
   \<and> tags v (Some i) = Inl IndexError
   \<and> values_seq v (Some i) = Inl IndexError"
proof (induction v)
  case (Source s)
  then show ?case by simp
next
  case (ProxySequence source)
  then show ?case by (simp add: over_frame_map_len)
next
  case (FrameMapSequence source m)
  then show ?case using py_index_out_of_range [of m i] by simp
next
  case (ChannelFilterSequence source flt)
  then show ?case by (simp add: over_frame_map_len)
qed

lemma over_frame_map_channel:
  "over_frame_map v \<Longrightarrow> length_seq v \<le> i \<or> i < - length_seq v \<Longrightarrow>
   channel v name = Inr (Some w) \<Longrightarrow>
   channel_frame w i = Inl IndexError \<and> channel_filename w i = Inl IndexError"
proof (induction v)
  case (Source s)
  then show ?case by simp
next
  case (ProxySequence source)
  then show ?case by (simp add: over_frame_map_len)
next
  case (FrameMapSequence source m)
  then show ?case
    using py_index_out_of_range [of m i]
    by (auto split: sum.splits option.splits)
next
  case (ChannelFilterSequence source flt)
  then show ?case by (auto split: if_splits sum.splits option.splits)
qed

lemmas five_frames_simps =
  five_frames_def per_frame_def color_channel_def depth_channel_def
  FrameMapSequence_init_def ProxySequence_init_def ChannelFilterSequence_init_def
  FrameMapSequence_frame_def ProxySequence_frame_def py_index_def

section \<open>Properties\<close>

subsection \<open>Frame handles\<close>

text \<open>
  C1. The claim: \<open>V.frame(i)\<close> of a \<open>FrameMapSequence\<close> \<open>V\<close> is a handle owned
  by \<open>V\<close> that stores the view-local index \<open>i\<close>, the translation through the
  map being left to the moment the handle is resolved through \<open>V\<close>.
  The code stores the translated index instead. Over the five-frame source with
  the map \<open>[1, 2, 0]\<close>, \<open>V.frame(0)\<close> is the handle \<open>(V, 1)\<close>, not \<open>(V, 0)\<close>;
  resolved through its owner, \<open>V.groundtruth(1)\<close>, it yields \<open>r2\<close>, while
  position 0 of the view is \<open>r1\<close>: the map is applied twice.
\<close>

theorem C1_frame_stores_translated_index:
  "frame (FrameMapSequence_init five_frames [1, 2, 0]) 0
     = Inr (Frame (FrameMapSequence_init five_frames [1, 2, 0]) 1)
   \<and> frame (ProxySequence_init five_frames) 0 = Inr (Frame (ProxySequence_init five_frames) 0)
   \<and> groundtruth (FrameMapSequence_init five_frames [1, 2, 0]) (Some 0) = Inr (Val ''r1'')
   \<and> groundtruth (FrameMapSequence_init five_frames [1, 2, 0]) (Some 1) = Inr (Val ''r2'')"
  by (simp add: five_frames_simps)

subsection \<open>Indices out of range\<close>

text \<open>
  C2, as stated, fails. The index \<open>-1\<close> is outside \<open>[0, length)\<close> of the view
  built from \<open>[4, 2, 2, 10, -1]\<close>, and \<open>frame(-1)\<close> returns the handle of the
  last map entry; and \<open>frame(length)\<close> of a \<open>ProxySequence\<close> returns a handle.
\<close>

theorem C2_out_of_range_counterexample:
  "\<not> (0 \<le> (- 1 :: int) \<and> - 1 < length_seq (FrameMapSequence_init five_frames [4, 2, 2, 10, - 1]))
   \<and> frame (FrameMapSequence_init five_frames [4, 2, 2, 10, - 1]) (- 1)
       = Inr (Frame (FrameMapSequence_init five_frames [4, 2, 2, 10, - 1]) 2)
   \<and> length_seq (ProxySequence_init five_frames) = 5
   \<and> frame (ProxySequence_init five_frames) 5 = Inr (Frame (ProxySequence_init five_frames) 5)"
  by (simp add: five_frames_simps)

text \<open>
  C2, amended. For an index \<open>i\<close> with \<open>i \<ge> length\<close> or \<open>i < -length\<close>:
  \<open>frame(i)\<close> of a \<open>FrameMapSequence\<close> and \<open>frame(i)\<close>, \<open>filename(i)\<close> of a
  \<open>FrameMapChannel\<close> raise IndexError, in particular \<open>V.frame(V.length)\<close>;
  and for a \<open>FrameMapSequence\<close> or forwarding views stacked on one, the indexed
  \<open>groundtruth\<close>, \<open>tags\<close> and \<open>values\<close> raise IndexError, and so do
  \<open>frame(i)\<close> and \<open>filename(i)\<close> of every channel the view returns.
\<close>

theorem C2_out_of_range_raises:
  "(int (length m) \<le> i \<or> i < - int (length m) \<longrightarrow>
      frame (FrameMapSequence source m) i = Inl IndexError
      \<and> channel_frame (FrameMapChannel c m) i = Inl IndexError
      \<and> channel_filename (FrameMapChannel c m) i = Inl IndexError)
   \<and> frame (FrameMapSequence source m) (length_seq (FrameMapSequence source m)) = Inl IndexError
   \<and> (over_frame_map v \<and> (length_seq v \<le> j \<or> j < - length_seq v) \<longrightarrow>
      groundtruth v (Some j) = Inl IndexError
      \<and> tags v (Some j) = Inl IndexError
      \<and> values_seq v (Some j) = Inl IndexError)
   \<and> (over_frame_map v \<and> (length_seq v \<le> j \<or> j < - length_seq v)
        \<and> channel v name = Inr (Some w) \<longrightarrow>
      channel_frame w j = Inl IndexError \<and> channel_filename w j = Inl IndexError)"
proof (intro conjI impI)
  assume "int (length m) \<le> i \<or> i < - int (length m)"
  then have oob: "py_index m i = Inl IndexError"
    by (rule py_index_out_of_range)
  from oob show "frame (FrameMapSequence source m) i = Inl IndexError"
    by (simp add: FrameMapSequence_frame_def)
  from oob show "channel_frame (FrameMapChannel c m) i = Inl IndexError"
    by simp
  from oob show "channel_filename (FrameMapChannel c m) i = Inl IndexError"
    by simp
next
  have "py_index m (int (length m)) = Inl IndexError"
    by (simp add: py_index_out_of_range)
  then show "frame (FrameMapSequence source m) (length_seq (FrameMapSequence source m))
      = Inl IndexError"
    by (simp add: FrameMapSequence_frame_def)
next
  assume h: "over_frame_map v \<and> (length_seq v \<le> j \<or> j < - length_seq v)"
  then have all: "groundtruth v (Some j) = Inl IndexError
    \<and> tags v (Some j) = Inl IndexError \<and> values_seq v (Some j) = Inl IndexError"
    using over_frame_map_indexed [of v j] by blast
  from all show "groundtruth v (Some j) = Inl IndexError" by blast
  from all show "tags v (Some j) = Inl IndexError" by blast
  from all show "values_seq v (Some j) = Inl IndexError" by blast
next
  assume h: "over_frame_map v \<and> (length_seq v \<le> j \<or> j < - length_seq v)
    \<and> channel v name = Inr (Some w)"
  then have both: "channel_frame w j = Inl IndexError \<and> channel_filename w j = Inl IndexError"
    using over_frame_map_channel [of v j name w] by blast
  from both show "channel_frame w j = Inl IndexError" by blast
  from both show "channel_filename w j = Inl IndexError" by blast
qed

text \<open>
  C2, amended, at the map \<open>[4, 2, 2]\<close> with the index 3, and at a
  \<open>ProxySequence\<close> over that view with the index \<open>-4\<close>.
\<close>

theorem C2_out_of_range_raises_witness:
  "(int (length [4, 2, 2 :: int]) \<le> 3 \<or> 3 < - int (length [4, 2, 2 :: int]))
   \<and> over_frame_map (ProxySequence (FrameMapSequence five_frames [4, 2, 2]))
   \<and> (length_seq (ProxySequence (FrameMapSequence five_frames [4, 2, 2])) \<le> - 4
       \<or> - 4 < - length_seq (ProxySequence (FrameMapSequence five_frames [4, 2, 2])))
   \<and> channel (ProxySequence (FrameMapSequence five_frames [4, 2, 2])) (Some ''color'')
       = Inr (Some (FrameMapChannel color_channel [4, 2, 2]))
   \<and> frame (FrameMapSequence five_frames [4, 2, 2]) 3 = Inl IndexError
   \<and> channel_frame (FrameMapChannel depth_channel [4, 2, 2]) 3 = Inl IndexError
   \<and> groundtruth (ProxySequence (FrameMapSequence five_frames [4, 2, 2])) (Some (- 4))
       = Inl IndexError
   \<and> channel_frame (FrameMapChannel color_channel [4, 2, 2]) (- 4) = Inl IndexError"
proof -
  have ch: "channel (ProxySequence (FrameMapSequence five_frames [4, 2, 2])) (Some ''color'')
       = Inr (Some (FrameMapChannel color_channel [4, 2, 2]))"
    by (simp add: five_frames_def)
  show ?thesis
    using ch C2_out_of_range_raises [of "[4, 2, 2]" 3 five_frames depth_channel
        "ProxySequence (FrameMapSequence five_frames [4, 2, 2])" "- 4" "Some ''color''"
        "FrameMapChannel color_channel [4, 2, 2]"]
    by simp
qed

subsection \<open>The channel filter\<close>

text \<open>
  C3. The claim: \<open>channel(name)\<close> of a \<open>ChannelFilterSequence\<close> returns the
  wrapped source channel when the name is allowed and the source has it. The code
  reads \<open>self._map\<close>, which a \<open>ChannelFilterSequence\<close> does not have: over the
  five-frame source with the request \<open>{color}\<close>, \<open>channel(''color'')\<close> raises
  AttributeError.
\<close>

theorem C3_allowed_channel_raises:
  "ChannelFilterSequence_init five_frames [''color'']
     = Inr (ChannelFilterSequence five_frames [''color''])
   \<and> channel five_frames (Some ''color'') = Inr (Some color_channel)
   \<and> channel (ChannelFilterSequence five_frames [''color'']) (Some ''color'')
       = Inl AttributeError"
  by (simp add: five_frames_def ChannelFilterSequence_init_def)

text \<open>
  C4. The claim: \<open>channels()\<close> of \<open>ChannelFilterSequence(S, R)\<close> is the
  intersection of \<open>R\<close> with \<open>S.channels()\<close>. The initialiser computes that
  intersection into \<open>_filter\<close>, and \<open>channels()\<close> reads \<open>_channels\<close>: over the
  five-frame source with the request \<open>{color, ir}\<close> the allow-set is
  \<open>[color]\<close> and \<open>channels()\<close> raises AttributeError.
\<close>

theorem C4_channels_raises:
  "ChannelFilterSequence_init five_frames [''color'', ''ir'']
     = Inr (ChannelFilterSequence five_frames [''color''])
   \<and> channels (ChannelFilterSequence five_frames [''color'']) = Inl AttributeError"
  by (simp add: five_frames_def ChannelFilterSequence_init_def)

subsection \<open>The frame map\<close>

text \<open>
  C5. \<open>FrameMapSequence(S, m)\<close> is always built, no entry is reported; its map
  is the list of the entries \<open>x\<close> of \<open>m\<close> with \<open>0 \<le> x < S.length\<close>, in the
  order and with the repetitions of \<open>m\<close>, and its length is the number of these
  entries. Nothing is checked again at access time: whatever single entry \<open>k\<close>
  a stored map holds, \<open>frame(0)\<close> hands it out.
\<close>

theorem C5_effective_map:
  "FrameMapSequence_init source m
     = FrameMapSequence source [x \<leftarrow> m. 0 \<le> x \<and> x < length_seq source]
   \<and> attr_map (FrameMapSequence_init source m)
     = Inr [x \<leftarrow> m. 0 \<le> x \<and> x < length_seq source]
   \<and> length_seq (FrameMapSequence_init source m)
     = int (length [x \<leftarrow> m. 0 \<le> x \<and> x < length_seq source])
   \<and> len_seq (FrameMapSequence_init source m)
     = int (length [x \<leftarrow> m. 0 \<le> x \<and> x < length_seq source])
   \<and> frame (FrameMapSequence source [k]) 0 = Inr (Frame (FrameMapSequence source [k]) k)"
  by (simp add: FrameMapSequence_init_def FrameMapSequence_frame_def py_index_def)

text \<open>
  C6. For a \<open>FrameMapSequence\<close> with map \<open>m\<close> over \<open>S\<close>: \<open>groundtruth(i)\<close>
  is \<open>S.groundtruth(m[i])\<close> for \<open>0 \<le> i < length\<close>; \<open>groundtruth()\<close> is the
  comprehension \<open>[S.groundtruth(k) for k in m]\<close>, raises of the source included;
  and when the source answers \<open>g k\<close> for every entry \<open>k\<close>, it is the list of
  the \<open>g (m[0]), ..., g (m[length-1])\<close>, as long as the view.
\<close>

theorem C6_groundtruth_remapped:
  "(0 \<le> i \<and> i < length_seq (FrameMapSequence source m) \<longrightarrow>
      groundtruth (FrameMapSequence source m) (Some i) = groundtruth source (Some (m ! nat i)))
   \<and> groundtruth (FrameMapSequence source m) None =
       (case spec_groundtruth_list (\<lambda>k. groundtruth source (Some k)) m of
          Inl e \<Rightarrow> Inl e
        | Inr vs \<Rightarrow> Inr (PyList vs))
   \<and> ((\<forall>k \<in> set m. groundtruth source (Some k) = Inr (g k)) \<longrightarrow>
        groundtruth (FrameMapSequence source m) None = Inr (PyList (map g m))
        \<and> int (length (map g m)) = length_seq (FrameMapSequence source m))"
proof (intro conjI impI)
  assume "0 \<le> i \<and> i < length_seq (FrameMapSequence source m)"
  then show "groundtruth (FrameMapSequence source m) (Some i)
      = groundtruth source (Some (m ! nat i))"
    by (simp add: py_index_in_range)
next
  show "groundtruth (FrameMapSequence source m) None =
       (case spec_groundtruth_list (\<lambda>k. groundtruth source (Some k)) m of
          Inl e \<Rightarrow> Inl e
        | Inr vs \<Rightarrow> Inr (PyList vs))"
    by (rule groundtruth_whole)
next
  assume "\<forall>k \<in> set m. groundtruth source (Some k) = Inr (g k)"
  then have "spec_groundtruth_list (\<lambda>k. groundtruth source (Some k)) m = Inr (map g m)"
    by (rule spec_groundtruth_list_map)
  then show "groundtruth (FrameMapSequence source m) None = Inr (PyList (map g m))"
    by (simp add: groundtruth_whole del: groundtruth.simps)
next
  show "int (length (map g m)) = length_seq (FrameMapSequence source m)"
    by simp
qed

text \<open>
  C6 on the five-frame source with the map \<open>[4, 2, 2]\<close>: \<open>groundtruth(1)\<close> is
  the source's \<open>groundtruth(2)\<close>, and \<open>groundtruth()\<close> is \<open>[r4, r2, r2]\<close>.
\<close>

theorem C6_groundtruth_remapped_witness:
  "(0 \<le> (1::int) \<and> 1 < length_seq (FrameMapSequence five_frames [4, 2, 2]))
   \<and> groundtruth five_frames (Some 4) = Inr (Val ''r4'')
   \<and> groundtruth five_frames (Some 2) = Inr (Val ''r2'')
   \<and> groundtruth (FrameMapSequence five_frames [4, 2, 2]) (Some 1)
       = groundtruth five_frames (Some 2)
   \<and> groundtruth (FrameMapSequence five_frames [4, 2, 2]) None
       = Inr (PyList [Val ''r4'', Val ''r2'', Val ''r2''])"
proof -
  have r4: "groundtruth five_frames (Some 4) = Inr (Val ''r4'')"
    by (simp add: five_frames_def per_frame_def)
  have r2: "groundtruth five_frames (Some 2) = Inr (Val ''r2'')"
    by (simp add: five_frames_def per_frame_def)
  have h: "\<forall>k \<in> set [4, 2, 2]. groundtruth five_frames (Some k)
         = Inr (Val ([''r0'', ''r1'', ''r2'', ''r3'', ''r4''] ! nat k))"
    using r4 r2 by simp
  show ?thesis
    using r4 r2 h C6_groundtruth_remapped [of 1 five_frames "[4, 2, 2]"
        "\<lambda>k. Val ([''r0'', ''r1'', ''r2'', ''r3'', ''r4''] ! nat k)"]
    by simp
qed

text \<open>
  C7. For a \<open>FrameMapSequence\<close> with map \<open>m\<close> over \<open>S\<close>: \<open>tags(i)\<close> and
  \<open>values(i)\<close> are \<open>S.tags(m[i])\<close> and \<open>S.values(m[i])\<close> for
  \<open>0 \<le> i < length\<close>; \<open>tags()\<close> and \<open>values()\<close> are \<open>S.tags()\<close> and
  \<open>S.values()\<close>, not re-indexed through the map.
\<close>

theorem C7_tags_values:
  "(0 \<le> i \<and> i < length_seq (FrameMapSequence source m) \<longrightarrow>
      tags (FrameMapSequence source m) (Some i) = tags source (Some (m ! nat i))
      \<and> values_seq (FrameMapSequence source m) (Some i) = values_seq source (Some (m ! nat i)))
   \<and> tags (FrameMapSequence source m) None = tags source None
   \<and> values_seq (FrameMapSequence source m) None = values_seq source None"
  by (simp add: py_index_in_range)

text \<open>
  C7 on the five-frame source with the map \<open>[4, 2, 2]\<close>: \<open>tags(0)\<close> is \<open>t4\<close>,
  \<open>values(0)\<close> is \<open>v4\<close>, and \<open>tags()\<close> is the source's list of five.
\<close>

theorem C7_tags_values_witness:
  "(0 \<le> (0::int) \<and> 0 < length_seq (FrameMapSequence five_frames [4, 2, 2]))
   \<and> tags (FrameMapSequence five_frames [4, 2, 2]) (Some 0) = Inr (Val ''t4'')
   \<and> values_seq (FrameMapSequence five_frames [4, 2, 2]) (Some 0) = Inr (Val ''v4'')
   \<and> tags (FrameMapSequence five_frames [4, 2, 2]) None
       = Inr (PyList [Val ''t0'', Val ''t1'', Val ''t2'', Val ''t3'', Val ''t4''])"
  using C7_tags_values [of 0 five_frames "[4, 2, 2]"]
  by (simp add: five_frames_def per_frame_def)

text \<open>
  C8. When \<open>S\<close> has the channel, \<open>FrameMapSequence(S, m).channel(c)\<close> is the
  \<open>FrameMapChannel\<close> of \<open>S.channel(c)\<close> over the filtered map \<open>m'\<close>; for
  \<open>0 \<le> i < length\<close> its \<open>frame(i)\<close> and \<open>filename(i)\<close> are those of
  \<open>S.channel(c)\<close> at \<open>m'[i]\<close>, and its length is the length of \<open>m'\<close>, which is
  the length of the view.
\<close>

theorem C8_channel_lockstep:
  assumes "channel source name = Inr (Some c)"
    and "0 \<le> i" and "i < length_seq (FrameMapSequence_init source m)"
  shows "channel (FrameMapSequence_init source m) name
           = Inr (Some (FrameMapChannel c [x \<leftarrow> m. 0 \<le> x \<and> x < length_seq source]))
    \<and> channel_frame (FrameMapChannel c [x \<leftarrow> m. 0 \<le> x \<and> x < length_seq source]) i
           = channel_frame c ([x \<leftarrow> m. 0 \<le> x \<and> x < length_seq source] ! nat i)
    \<and> channel_filename (FrameMapChannel c [x \<leftarrow> m. 0 \<le> x \<and> x < length_seq source]) i
           = channel_filename c ([x \<leftarrow> m. 0 \<le> x \<and> x < length_seq source] ! nat i)
    \<and> channel_length (FrameMapChannel c [x \<leftarrow> m. 0 \<le> x \<and> x < length_seq source])
           = int (length [x \<leftarrow> m. 0 \<le> x \<and> x < length_seq source])
    \<and> channel_length (FrameMapChannel c [x \<leftarrow> m. 0 \<le> x \<and> x < length_seq source])
           = length_seq (FrameMapSequence_init source m)"
  using assms by (simp add: FrameMapSequence_init_def py_index_in_range)

text \<open>
  C8 on the five-frame source with the candidate map \<open>[4, 2, 2, 10, -1]\<close> and
  the channel \<open>color\<close>: the wrapped channel has length 3 and its frame 1 is the
  source channel's frame 2.
\<close>

theorem C8_channel_lockstep_witness:
  "channel five_frames (Some ''color'') = Inr (Some color_channel)
   \<and> (0::int) \<le> 1 \<and> 1 < length_seq (FrameMapSequence_init five_frames [4, 2, 2, 10, - 1])
   \<and> channel (FrameMapSequence_init five_frames [4, 2, 2, 10, - 1]) (Some ''color'')
       = Inr (Some (FrameMapChannel color_channel [4, 2, 2]))
   \<and> channel_frame (FrameMapChannel color_channel [4, 2, 2]) 1 = Inr ''c2''
   \<and> channel_length (FrameMapChannel color_channel [4, 2, 2]) = 3"
proof -
  have a: "channel five_frames (Some ''color'') = Inr (Some color_channel)"
    by (simp add: five_frames_def)
  have b: "(1::int) < length_seq (FrameMapSequence_init five_frames [4, 2, 2, 10, - 1])"
    by (simp add: five_frames_def FrameMapSequence_init_def)
  have f: "[x \<leftarrow> [4, 2, 2, 10, - 1]. 0 \<le> x \<and> x < length_seq five_frames] = [4, 2, 2]"
    by (simp add: five_frames_def)
  have g: "channel_frame color_channel 2 = Inr ''c2''"
    by (simp add: color_channel_def)
  show ?thesis
    using a b C8_channel_lockstep [OF a _ b] f g by simp
qed

text \<open>
  C9. A channel that is not in scope is answered by \<open>None\<close>, not by a raise:
  \<open>channel(name)\<close> of a \<open>FrameMapSequence\<close> is \<open>None\<close> when the source
  answers \<open>None\<close>; \<open>channel(name)\<close> of a \<open>ChannelFilterSequence\<close> is \<open>None\<close>
  when the name is not in the allow-set, and when the name is omitted.
\<close>

theorem C9_absent_channel_is_none:
  "(channel source name = Inr None \<longrightarrow> channel (FrameMapSequence source m) name = Inr None)
   \<and> (name \<notin> Some ` set flt \<longrightarrow> channel (ChannelFilterSequence source flt) name = Inr None)
   \<and> channel (ChannelFilterSequence source flt) None = Inr None"
  by auto

text \<open>
  C9 on the five-frame source: the name \<open>ir\<close> is unknown to the source and
  outside the allow-set \<open>[color]\<close>.
\<close>

theorem C9_absent_channel_is_none_witness:
  "channel five_frames (Some ''ir'') = Inr None
   \<and> Some ''ir'' \<notin> Some ` set [''color'']
   \<and> channel (FrameMapSequence five_frames [4, 2, 2]) (Some ''ir'') = Inr None
   \<and> channel (ChannelFilterSequence five_frames [''color'']) (Some ''ir'') = Inr None"
proof -
  have a: "channel five_frames (Some ''ir'') = Inr None"
    by (simp add: five_frames_def)
  show ?thesis
    using a C9_absent_channel_is_none [of five_frames "Some ''ir''" "[4, 2, 2]" "[''color'']"]
    by simp
qed

subsection \<open>Length\<close>

text \<open>
  C10. For each of the three views, whatever the source and the construction
  parameter, \<open>len(view)\<close> equals \<open>view.length\<close>.
\<close>

theorem C10_len_agrees_with_length:
  "len_seq (ProxySequence source) = length_seq (ProxySequence source)
   \<and> len_seq (FrameMapSequence source frame_map) = length_seq (FrameMapSequence source frame_map)
   \<and> len_seq (ChannelFilterSequence source flt) = length_seq (ChannelFilterSequence source flt)"
  by simp

end
